theory Spec2Isabelle
  imports Main "HOL-Library.Multiset"
begin

section \<open>Values at the HTTP boundary\<close>

text \<open>
  A field of \<open>req.body\<close> as \<open>backend/server.js\<close> reads it: absent (\<open>undefined\<close>),
  JSON \<open>null\<close>, or a string. Numbers, booleans and nested objects in a request body are
  outside the modelled fragment. A body is the object itself: a lookup by key that
  answers \<open>undefined\<close> for a key the client did not send.
\<close>

datatype jsval = JsUndefined | JsNull | JsString string

type_synonym jsobject = "string \<Rightarrow> jsval"

definition obj :: "(string \<times> jsval) list \<Rightarrow> jsobject" where
  "obj kvs k = (case map_of kvs k of None \<Rightarrow> JsUndefined | Some v \<Rightarrow> v)"

text \<open>\<open>!v\<close>: of the modelled values only a non-empty string is truthy.\<close>

definition falsy :: "jsval \<Rightarrow> bool" where
  "falsy v = (case v of JsString s \<Rightarrow> s = [] | _ \<Rightarrow> True)"

text \<open>\<open>v || d\<close> for a string literal \<open>d\<close>, as in \<open>full_name || ''\<close> and \<open>role || 'user'\<close>.\<close>

definition or_default :: "jsval \<Rightarrow> string \<Rightarrow> string" where
  "or_default v d = (case v of JsString s \<Rightarrow> if s = [] then d else s | _ \<Rightarrow> d)"

text \<open>The string of a value already known to be truthy.\<close>

definition str_of :: "jsval \<Rightarrow> string" where
  "str_of v = (case v of JsString s \<Rightarrow> s | _ \<Rightarrow> [])"

text \<open>
  What a handler sends back: a status code and either the status text of
  \<open>res.sendStatus\<close> or the JSON of \<open>res.json\<close>.
\<close>

datatype json =
    JNull
  | JNum nat
  | JStr string
  | JObj "(string \<times> json) list"
  | JArr "json list"

datatype payload = Text string | Json json

type_synonym response = "nat \<times> payload"

text \<open>Every object key that occurs in a JSON value, at any depth.\<close>

fun keys_of :: "json \<Rightarrow> string list" where
  "keys_of (JObj kvs) = concat (map (\<lambda>kv. fst kv # keys_of (snd kv)) kvs)"
| "keys_of (JArr vs) = concat (map keys_of vs)"
| "keys_of JNull = []"
| "keys_of (JNum n) = []"
| "keys_of (JStr s) = []"

definition payload_keys :: "payload \<Rightarrow> string list" where
  "payload_keys p = (case p of Text s \<Rightarrow> [] | Json j \<Rightarrow> keys_of j)"



definition error_json :: "string \<Rightarrow> payload" where
  "error_json msg = Json (JObj [(''error'', JStr msg)])"

definition message_json :: "string \<Rightarrow> payload" where
  "message_json msg = Json (JObj [(''message'', JStr msg)])"

record request =
  authorization :: "string option"
  params_id :: string
  body :: jsobject


section \<open>The users table\<close>

text \<open>
  One row of the table that \<open>initializeDatabase\<close> creates:
  \<^verbatim>\<open>id INT AUTO_INCREMENT PRIMARY KEY, username VARCHAR(255) UNIQUE NOT NULL,
  email VARCHAR(255) UNIQUE NOT NULL, password VARCHAR(255) NOT NULL,
  full_name VARCHAR(255), role VARCHAR(50) DEFAULT 'user',
  created_at TIMESTAMP DEFAULT CURRENT_TIMESTAMP\<close>.
  The two nullable columns are options. Column widths are not modelled: the strings
  are taken to fit.
\<close>

record user_row =
  user_id :: nat
  username :: string
  email :: string
  password :: string
  full_name :: "string option"
  role :: "string option"
  created_at :: nat

text \<open>
  The table: its rows, kept in the order they were inserted, and the \<open>AUTO_INCREMENT\<close>
  counter. The order in which a \<open>SELECT\<close> returns rows is not the order of this list:
  it is the engine's, see \<open>sql_scan\<close> below.
\<close>

record db =
  rows :: "user_row list"
  next_id :: nat

definition empty_db :: db where
  "empty_db = \<lparr>rows = [], next_id = 1\<rparr>"

datatype claims = Claims (userId: nat) (claim_username: string) (claim_role: string)

datatype sql_error = ER_DUP_ENTRY | ER_BAD_NULL_ERROR | BIND_UNDEFINED

text \<open>
  The libraries the server calls are parameters of the model:
  \<^item> \<open>sql_eq\<close>: equality of two strings under the collation of the \<open>VARCHAR\<close> columns,
    used by \<open>WHERE username = ?\<close> and by the \<open>UNIQUE\<close> indexes alike;
  \<^item> \<open>sql_num\<close>: the primary key a string operand denotes when MySQL compares it with
    the \<open>INT\<close> column \<open>id\<close> (\<open>None\<close>: it equals no key);
  \<^item> \<open>scan_rank\<close>: the place the engine gives the row with a given primary key when it
    answers a \<open>SELECT\<close>. No statement of the server has an \<open>ORDER BY\<close>, so the order
    of a result is the engine's choice of access path;
  \<^item> \<open>sql_message\<close>: the \<open>message\<close> of a driver error;
  \<^item> \<open>bcrypt_hash\<close>, \<open>bcrypt_compare\<close>: \<open>bcrypt.hash(p, 10)\<close> with the salt it drew and
    \<open>bcrypt.compare\<close>;
  \<^item> \<open>jwt_sign\<close>, \<open>jwt_verify\<close>: \<open>jwt.sign\<close> and \<open>jwt.verify\<close> under \<open>JWT_SECRET\<close> at the
    time of the request (\<open>None\<close>: the callback receives \<open>err\<close>).
\<close>

record env =
  sql_eq :: "string \<Rightarrow> string \<Rightarrow> bool"
  sql_num :: "string \<Rightarrow> nat option"
  scan_rank :: "nat \<Rightarrow> nat"
  sql_message :: "sql_error \<Rightarrow> string"
  bcrypt_hash :: "string \<Rightarrow> string"
  bcrypt_compare :: "string \<Rightarrow> string \<Rightarrow> bool"
  jwt_sign :: "claims \<Rightarrow> string"
  jwt_verify :: "string \<Rightarrow> claims option"


subsection \<open>SQL statements\<close>

text \<open>The rows of the table in the order a \<open>SELECT\<close> without \<open>ORDER BY\<close> meets them.\<close>

definition sql_scan :: "env \<Rightarrow> db \<Rightarrow> user_row list" where
  "sql_scan E d = sort_key (\<lambda>r. scan_rank E (user_id r)) (rows d)"

text \<open>\<^verbatim>\<open>SELECT * FROM users WHERE username = ? OR email = ?\<close>\<close>

definition select_by_username_or_email :: "env \<Rightarrow> db \<Rightarrow> string \<Rightarrow> string \<Rightarrow> user_row list" where
  "select_by_username_or_email E d u e =
     filter (\<lambda>r. sql_eq E (username r) u \<or> sql_eq E (email r) e) (sql_scan E d)"

text \<open>A value pair that one of the two \<open>UNIQUE\<close> indexes refuses beside the rows \<open>rs\<close>.\<close>

definition unique_clash :: "env \<Rightarrow> user_row list \<Rightarrow> string \<Rightarrow> string \<Rightarrow> bool" where
  "unique_clash E rs u e =
     list_ex (\<lambda>r. sql_eq E (username r) u \<or> sql_eq E (email r) e) rs"

text \<open>
  \<^verbatim>\<open>INSERT INTO users (username, email, password, full_name, role) VALUES (?, ?, ?, ?, ?)\<close>
  answers \<open>insertId\<close>; \<open>now\<close> is \<open>CURRENT_TIMESTAMP\<close>.
\<close>

definition insert_user ::
  "env \<Rightarrow> nat \<Rightarrow> db \<Rightarrow> string \<Rightarrow> string \<Rightarrow> string \<Rightarrow> string \<Rightarrow> string \<Rightarrow> sql_error + (nat \<times> db)" where
  "insert_user E now d u e p f r =
     (if unique_clash E (rows d) u e then Inl ER_DUP_ENTRY
      else Inr (next_id d,
        d\<lparr>rows := rows d @
             [\<lparr>user_id = next_id d, username = u, email = e, password = p,
               full_name = Some f, role = Some r, created_at = now\<rparr>],
          next_id := Suc (next_id d)\<rparr>))"

text \<open>\<open>WHERE id = ?\<close> with the string of the route parameter as operand.\<close>

definition id_hit :: "env \<Rightarrow> string \<Rightarrow> user_row \<Rightarrow> bool" where
  "id_hit E i r = (sql_num E i = Some (user_id r))"

text \<open>\<^verbatim>\<open>SELECT id, username, email, full_name, role, created_at FROM users WHERE id = ?\<close>
  (the projection is \<open>public_row\<close> below).\<close>

definition select_by_id :: "env \<Rightarrow> db \<Rightarrow> string \<Rightarrow> user_row list" where
  "select_by_id E d i = filter (id_hit E i) (sql_scan E d)"

text \<open>
  \<^verbatim>\<open>UPDATE users SET username = ?, email = ?, full_name = ? WHERE id = ?\<close>
  answers \<open>affectedRows\<close>, the number of rows the \<open>WHERE\<close> found. The driver refuses an
  \<open>undefined\<close> bind parameter before anything is sent; \<open>null\<close> reaches a \<open>NOT NULL\<close>
  column only when a row is found.
\<close>

definition update_stmt ::
  "env \<Rightarrow> db \<Rightarrow> jsval \<Rightarrow> jsval \<Rightarrow> string \<Rightarrow> string \<Rightarrow> sql_error + (nat \<times> db)" where
  "update_stmt E d u e f i =
     (if u = JsUndefined \<or> e = JsUndefined then Inl BIND_UNDEFINED
      else if \<not> list_ex (id_hit E i) (rows d) then Inr (0, d)
      else if u = JsNull \<or> e = JsNull then Inl ER_BAD_NULL_ERROR
      else if unique_clash E (filter (\<lambda>r. \<not> id_hit E i r) (rows d)) (str_of u) (str_of e)
        then Inl ER_DUP_ENTRY
      else Inr (length (filter (id_hit E i) (rows d)),
        d\<lparr>rows := map (\<lambda>r. if id_hit E i r
            then r\<lparr>username := str_of u, email := str_of e, full_name := Some f\<rparr>
            else r) (rows d)\<rparr>))"

text \<open>\<^verbatim>\<open>DELETE FROM users WHERE id = ?\<close> answers \<open>affectedRows\<close>.\<close>

definition delete_stmt :: "env \<Rightarrow> db \<Rightarrow> string \<Rightarrow> sql_error + (nat \<times> db)" where
  "delete_stmt E d i =
     Inr (length (filter (id_hit E i) (rows d)),
          d\<lparr>rows := filter (\<lambda>r. \<not> id_hit E i r) (rows d)\<rparr>)"

text \<open>
  \<open>handleDbError(operation, retries)\<close>: the loop runs \<open>operation\<close> up to \<open>retries + 1\<close>
  times, returns the first result and rethrows the error of the last attempt. A failed
  statement leaves the table as it was, so every attempt sees the same table.
\<close>

fun handleDbError :: "(unit \<Rightarrow> sql_error + 'a) \<Rightarrow> nat \<Rightarrow> sql_error + 'a" where
  "handleDbError operation 0 = operation ()"
| "handleDbError operation (Suc retries) =
     (case operation () of
        Inr v \<Rightarrow> Inr v
      | Inl e \<Rightarrow> handleDbError operation retries)"


section \<open>Handlers\<close>

text \<open>The columns \<open>id, username, email, full_name, role, created_at\<close> of a row, as JSON.\<close>

definition json_opt :: "string option \<Rightarrow> json" where
  "json_opt s = (case s of None \<Rightarrow> JNull | Some t \<Rightarrow> JStr t)"

definition public_row :: "user_row \<Rightarrow> json" where
  "public_row r =
     JObj [(''id'', JNum (user_id r)), (''username'', JStr (username r)),
           (''email'', JStr (email r)), (''full_name'', json_opt (full_name r)),
           (''role'', json_opt (role r)), (''created_at'', JNum (created_at r))]"

text \<open>\<open>user.role || 'user'\<close> on a row read from the table.\<close>

definition role_or_user :: "user_row \<Rightarrow> string" where
  "role_or_user r = (case role r of None \<Rightarrow> ''user'' | Some s \<Rightarrow> if s = [] then ''user'' else s)"

text \<open>\<open>createAdminAccount\<close>: errors are logged and swallowed.\<close>

definition createAdminAccount :: "env \<Rightarrow> nat \<Rightarrow> db \<Rightarrow> db" where
  "createAdminAccount E now d =
     (let hashedPassword = bcrypt_hash E ''admin123'' in
      case handleDbError
             (\<lambda>_. Inr (select_by_username_or_email E d ''admin'' ''admin@admin.com'')) 2 of
        Inl err \<Rightarrow> d
      | Inr existingAdmin \<Rightarrow>
          if existingAdmin = [] then
            (case handleDbError
                    (\<lambda>_. insert_user E now d ''admin'' ''admin@admin.com'' hashedPassword
                            ''Administrator'' ''admin'') 2 of
               Inl err \<Rightarrow> d
             | Inr (insertId, d') \<Rightarrow> d')
          else d)"

text \<open>JavaScript's \<open>s.split(' ')\<close>.\<close>

fun split_on :: "char \<Rightarrow> string \<Rightarrow> string list" where
  "split_on c [] = [[]]"
| "split_on c (x # xs) =
     (if x = c then [] # split_on c xs
      else (case split_on c xs of
              [] \<Rightarrow> [[x]]
            | y # ys \<Rightarrow> (x # y) # ys))"

text \<open>
  \<open>authenticateToken\<close>: \<open>Inl\<close> is the response it sends itself, \<open>Inr\<close> the verified
  payload it stores in \<open>req.user\<close> before calling \<open>next()\<close>.
\<close>

definition bearer_token :: "string option \<Rightarrow> string option" where
  "bearer_token authHeader =
     (case authHeader of
        None \<Rightarrow> None
      | Some h \<Rightarrow>
          if h = [] then Some []
          else (case split_on CHR '' '' h of
                  a # t # rest \<Rightarrow> Some t
                | _ \<Rightarrow> None))"

definition authenticateToken :: "env \<Rightarrow> request \<Rightarrow> response + claims" where
  "authenticateToken E req =
     (case bearer_token (authorization req) of
        None \<Rightarrow> Inl (401, Text ''Unauthorized'')
      | Some token \<Rightarrow>
          (case jwt_verify E token of
             None \<Rightarrow> Inl (403, Text ''Forbidden'')
           | Some user \<Rightarrow> Inr user))"

text \<open>\<open>POST /api/register\<close>\<close>

definition register_catch :: "env \<Rightarrow> sql_error \<Rightarrow> response" where
  "register_catch E err =
     (if err = ER_DUP_ENTRY then (400, error_json ''Username or email already exists'')
      else (500, error_json (''Server error - '' @ sql_message E err)))"

definition register :: "env \<Rightarrow> nat \<Rightarrow> db \<Rightarrow> request \<Rightarrow> response \<times> db" where
  "register E now d req =
     (let username' = body req ''username''; email' = body req ''email'';
          password' = body req ''password''; full_name' = body req ''full_name'';
          role' = body req ''role''
      in
      if falsy username' \<or> falsy email' \<or> falsy password' then
        ((400, error_json ''Username, email, and password are required''), d)
      else
        (case handleDbError
                (\<lambda>_. Inr (select_by_username_or_email E d (str_of username') (str_of email'))) 2 of
           Inl err \<Rightarrow> (register_catch E err, d)
         | Inr existingUsers \<Rightarrow>
             if existingUsers \<noteq> [] \<and> email (hd existingUsers) = str_of email' then
               ((400, error_json ''Email already registered''), d)
             else if existingUsers \<noteq> [] \<and> username (hd existingUsers) = str_of username' then
               ((400, error_json ''Username already taken''), d)
             else
               (let hashedPassword = bcrypt_hash E (str_of password') in
                case handleDbError
                       (\<lambda>_. insert_user E now d (str_of username') (str_of email') hashedPassword
                               (or_default full_name' []) (or_default role' ''user'')) 2 of
                  Inl err \<Rightarrow> (register_catch E err, d)
                | Inr (insertId, d') \<Rightarrow>
                    ((201, Json (JObj
                        [(''message'', JStr ''User created successfully''),
                         (''user'', JObj
                            [(''id'', JNum insertId),
                             (''username'', JStr (str_of username')),
                             (''email'', JStr (str_of email')),
                             (''full_name'', JStr (or_default full_name' [])),
                             (''role'', JStr (or_default role' ''user''))])])), d'))))"

text \<open>\<open>POST /api/login\<close>: the table is only read.\<close>

definition login :: "env \<Rightarrow> db \<Rightarrow> request \<Rightarrow> response" where
  "login E d req =
     (let username' = body req ''username''; password' = body req ''password'' in
      if falsy username' \<or> falsy password' then
        (400, error_json ''Username and password are required'')
      else
        (case handleDbError
                (\<lambda>_. Inr (select_by_username_or_email E d (str_of username') (str_of username'))) 2 of
           Inl err \<Rightarrow> (500, error_json ''Server error'')
         | Inr users \<Rightarrow>
             if users = [] then (401, error_json ''Invalid credentials'')
             else
               (let user = hd users in
                if \<not> bcrypt_compare E (str_of password') (password user) then
                  (401, error_json ''Invalid credentials'')
                else
                  (let token = jwt_sign E (Claims (user_id user) (username user) (role_or_user user))
                   in (200, Json (JObj
                        [(''message'', JStr ''Login successful''),
                         (''token'', JStr token),
                         (''user'', JObj
                            [(''id'', JNum (user_id user)),
                             (''username'', JStr (username user)),
                             (''email'', JStr (email user)),
                             (''full_name'', json_opt (full_name user)),
                             (''role'', JStr (role_or_user user))])]))))))"

text \<open>
  \<open>GET /api/users\<close>:
  \<^verbatim>\<open>SELECT id, username, email, full_name, role, created_at FROM users\<close>, with no
  \<open>ORDER BY\<close>; the handler sends the rows as the engine returned them.
\<close>

definition list_users :: "env \<Rightarrow> db \<Rightarrow> request \<Rightarrow> response" where
  "list_users E d req =
     (case authenticateToken E req of
        Inl res \<Rightarrow> res
      | Inr user \<Rightarrow>
          (case handleDbError (\<lambda>_. Inr (map public_row (sql_scan E d))) 2 of
             Inl err \<Rightarrow> (500, error_json ''Failed to fetch users'')
           | Inr users \<Rightarrow> (200, Json (JArr users))))"

text \<open>\<open>GET /api/users/:id\<close>\<close>

definition get_user :: "env \<Rightarrow> db \<Rightarrow> request \<Rightarrow> response" where
  "get_user E d req =
     (case authenticateToken E req of
        Inl res \<Rightarrow> res
      | Inr user \<Rightarrow>
          (let users = map public_row (select_by_id E d (params_id req)) in
           if users = [] then (404, error_json ''User not found'')
           else (200, Json (hd users))))"

text \<open>\<open>PUT /api/users/:id\<close>\<close>

definition update_user :: "env \<Rightarrow> db \<Rightarrow> request \<Rightarrow> response \<times> db" where
  "update_user E d req =
     (case authenticateToken E req of
        Inl res \<Rightarrow> (res, d)
      | Inr user \<Rightarrow>
          (let username' = body req ''username''; email' = body req ''email'';
               full_name' = body req ''full_name''
           in case update_stmt E d username' email' (or_default full_name' []) (params_id req) of
                Inl err \<Rightarrow>
                  if err = ER_DUP_ENTRY then
                    ((400, error_json ''Username or email already exists''), d)
                  else ((500, error_json ''Failed to update user''), d)
              | Inr (affectedRows, d') \<Rightarrow>
                  if affectedRows = 0 then ((404, error_json ''User not found''), d')
                  else ((200, message_json ''User updated successfully''), d')))"

text \<open>\<open>DELETE /api/users/:id\<close>\<close>

definition delete_user :: "env \<Rightarrow> db \<Rightarrow> request \<Rightarrow> response \<times> db" where
  "delete_user E d req =
     (case authenticateToken E req of
        Inl res \<Rightarrow> (res, d)
      | Inr user \<Rightarrow>
          if params_id req = ''1'' then
            ((403, error_json ''Cannot delete admin account''), d)
          else
            (case delete_stmt E d (params_id req) of
               Inl err \<Rightarrow> ((500, error_json ''Failed to delete user''), d)
             | Inr (affectedRows, d') \<Rightarrow>
                 if affectedRows = 0 then ((404, error_json ''User not found''), d')
                 else ((200, message_json ''User deleted successfully''), d')))"


section \<open>A concrete deployment\<close>

text \<open>
  One instance of the libraries, used to run the handlers on concrete requests: a
  binary collation, decimal route parameters (MySQL compares a string operand with an
  \<open>INT\<close> column by its numeric value, so \<open>01\<close> denotes the key 1), a scan along the
  primary key, a hasher that prefixes the plaintext, and a token service that knows the
  tokens of two users.
\<close>

definition digit_val :: "char \<Rightarrow> nat option" where
  "digit_val c =
     (let n = (of_char c :: nat) in if 48 \<le> n \<and> n \<le> 57 then Some (n - 48) else None)"

fun read_decimal :: "nat \<Rightarrow> string \<Rightarrow> nat option" where
  "read_decimal acc [] = Some acc"
| "read_decimal acc (c # cs) =
     (case digit_val c of
        None \<Rightarrow> None
      | Some v \<Rightarrow> read_decimal (10 * acc + v) cs)"

definition decimal_key :: "string \<Rightarrow> nat option" where
  "decimal_key s = (if s = [] then None else read_decimal 0 s)"

definition demo_verify :: "string \<Rightarrow> claims option" where
  "demo_verify t =
     (if t = ''jwt.admin'' then Some (Claims 1 ''admin'' ''admin'')
      else if t = ''jwt.bob'' then Some (Claims 2 ''bob'' ''user'')
      else None)"

definition demo_env :: env where
  "demo_env =
     \<lparr>sql_eq = (\<lambda>a b. a = b),
      sql_num = decimal_key,
      scan_rank = (\<lambda>k. k),
      sql_message = (\<lambda>e. ''driver error''),
      bcrypt_hash = (\<lambda>p. ''$2a$10$'' @ p),
      bcrypt_compare = (\<lambda>p h. h = ''$2a$10$'' @ p),
      jwt_sign = (\<lambda>c. ''jwt.'' @ claim_username c),
      jwt_verify = demo_verify\<rparr>"




text \<open>A request with a JSON body and no \<open>Authorization\<close> header.\<close>

definition post :: "(string \<times> jsval) list \<Rightarrow> request" where
  "post kvs = \<lparr>authorization = None, params_id = [], body = obj kvs\<rparr>"

text \<open>A request to \<open>/api/users/:id\<close> (or \<open>/api/users\<close>, with \<open>i\<close> empty) under a bearer token.\<close>

definition with_token :: "string \<Rightarrow> string \<Rightarrow> (string \<times> jsval) list \<Rightarrow> request" where
  "with_token t i kvs = \<lparr>authorization = Some (''Bearer '' @ t), params_id = i, body = obj kvs\<rparr>"

text \<open>The table after the first start of the server: the seeded administrator is row 1.\<close>

definition seeded_db :: db where
  "seeded_db = createAdminAccount demo_env 0 empty_db"

text \<open>... and after \<open>bob\<close> has registered.\<close>

definition bob_db :: db where
  "bob_db = snd (register demo_env 1 seeded_db
     (post [(''username'', JsString ''bob''), (''email'', JsString ''bob@x.com''),
            (''password'', JsString ''Str0ng!pw''), (''full_name'', JsString ''Bob'')]))"

text \<open>
  ... and after two more registrations: \<open>dave\<close> picks the user name \<open>carol@x.com\<close>,
  then \<open>carol\<close> registers under that e-mail address. Neither call collides with a stored
  row, since user names are compared with user names and addresses with addresses.
\<close>

definition carol_db :: db where
  "carol_db = snd (register demo_env 3
     (snd (register demo_env 2 bob_db
        (post [(''username'', JsString ''carol@x.com''), (''email'', JsString ''dave@x.com''),
               (''password'', JsString ''Dave!pw1'')])))
     (post [(''username'', JsString ''carol''), (''email'', JsString ''carol@x.com''),
            (''password'', JsString ''Carol!pw1'')]))"

text \<open>The same two registrations when \<open>dave\<close> happens to choose the password of \<open>carol\<close>.\<close>

definition twin_db :: db where
  "twin_db = snd (register demo_env 3
     (snd (register demo_env 2 bob_db
        (post [(''username'', JsString ''carol@x.com''), (''email'', JsString ''dave@x.com''),
               (''password'', JsString ''Carol!pw1'')])))
     (post [(''username'', JsString ''carol''), (''email'', JsString ''carol@x.com''),
            (''password'', JsString ''Carol!pw1'')]))"

text \<open>A table with the \<open>password\<close> column rewritten row by row and nothing else changed.\<close>

definition with_passwords :: "(user_row \<Rightarrow> string) \<Rightarrow> db \<Rightarrow> db" where
  "with_passwords f d = d\<lparr>rows := map (\<lambda>r. r\<lparr>password := f r\<rparr>) (rows d)\<rparr>"

text \<open>The tables the server can reach from an empty one.\<close>

inductive reachable :: "env \<Rightarrow> db \<Rightarrow> bool" for E :: env where
  start: "reachable E empty_db"
| seed: "reachable E d \<Longrightarrow> reachable E (createAdminAccount E now d)"
| reg: "reachable E d \<Longrightarrow> reachable E (snd (register E now d req))"
| upd: "reachable E d \<Longrightarrow> reachable E (snd (update_user E d req))"
| del: "reachable E d \<Longrightarrow> reachable E (snd (delete_user E d req))"



section \<open>Basic facts\<close>

lemma handleDbError_same [simp]: "handleDbError operation retries = operation ()"
  by (induction retries) (auto split: sum.splits)

lemmas value_defs = obj_def falsy_def or_default_def str_of_def error_json_def message_json_def
  json_opt_def public_row_def role_or_user_def post_def with_token_def

lemmas sql_defs = sql_scan_def select_by_username_or_email_def unique_clash_def insert_user_def
  id_hit_def select_by_id_def update_stmt_def delete_stmt_def

lemmas demo_defs = demo_env_def demo_verify_def decimal_key_def digit_val_def

lemmas auth_defs = authenticateToken_def bearer_token_def

subsection \<open>The keys of every response\<close>

lemma keys_of_json_opt [simp]: "keys_of (json_opt s) = []"
  by (cases s) (simp_all add: json_opt_def)

lemma keys_of_public_row:
  "keys_of (public_row r) = [''id'', ''username'', ''email'', ''full_name'', ''role'', ''created_at'']"
  by (simp add: public_row_def)

lemma payload_keys_error [simp]: "payload_keys (error_json m) = [''error'']"
  by (simp add: payload_keys_def error_json_def)

lemma payload_keys_message [simp]: "payload_keys (message_json m) = [''message'']"
  by (simp add: payload_keys_def message_json_def)

lemma payload_keys_Text [simp]: "payload_keys (Text s) = []"
  by (simp add: payload_keys_def)

lemma authenticate_keys: "authenticateToken E req = Inl res \<Longrightarrow> payload_keys (snd res) = []"
  by (auto simp: authenticateToken_def split: option.splits)

lemma register_catch_keys [simp]: "payload_keys (snd (register_catch E err)) = [''error'']"
  by (simp add: register_catch_def)

lemma register_keys:
  "set (payload_keys (snd (fst (register E now d req)))) \<subseteq>
     {''error'', ''message'', ''user'', ''id'', ''username'', ''email'', ''full_name'', ''role''}"
  by (simp add: register_def Let_def insert_user_def payload_keys_def[of "Json _"])

lemma login_keys:
  "set (payload_keys (snd (login E d req))) \<subseteq>
     {''error'', ''message'', ''token'', ''user'', ''id'', ''username'', ''email'', ''full_name'', ''role''}"
  by (simp add: login_def Let_def payload_keys_def[of "Json _"])

lemma list_users_keys:
  "set (payload_keys (snd (list_users E d req))) \<subseteq>
     {''id'', ''username'', ''email'', ''full_name'', ''role'', ''created_at''}"
  by (auto simp: list_users_def payload_keys_def[of "Json _"] keys_of_public_row
      dest: authenticate_keys split: sum.splits)

lemma get_user_keys:
  "set (payload_keys (snd (get_user E d req))) \<subseteq>
     {''error'', ''id'', ''username'', ''email'', ''full_name'', ''role'', ''created_at''}"
  by (auto simp: get_user_def Let_def payload_keys_def[of "Json _"] keys_of_public_row hd_map
      dest: authenticate_keys split: sum.splits)

subsection \<open>What the handlers do to the table\<close>

lemma register_table:
  "snd (register E now d req) = d \<or>
   (\<exists>r. snd (register E now d req) = d\<lparr>rows := rows d @ [r], next_id := Suc (next_id d)\<rparr> \<and>
        user_id r = next_id d \<and> password r = bcrypt_hash E (str_of (body req ''password'')))"
proof (cases "snd (register E now d req) = d")
  case False
  let ?r = "\<lparr>user_id = next_id d, username = str_of (body req ''username''),
             email = str_of (body req ''email''),
             password = bcrypt_hash E (str_of (body req ''password'')),
             full_name = Some (or_default (body req ''full_name'') []),
             role = Some (or_default (body req ''role'') ''user''), created_at = now\<rparr>"
  from False have "snd (register E now d req) =
      d\<lparr>rows := rows d @ [?r], next_id := Suc (next_id d)\<rparr>"
    by (simp add: register_def Let_def insert_user_def split: if_splits)
  then show ?thesis by (intro disjI2 exI[of _ ?r]) simp
qed simp

lemma createAdminAccount_table:
  "createAdminAccount E now d = d \<or>
   (\<exists>r. createAdminAccount E now d = d\<lparr>rows := rows d @ [r], next_id := Suc (next_id d)\<rparr> \<and>
        user_id r = next_id d \<and> password r = bcrypt_hash E ''admin123'')"
proof (cases "createAdminAccount E now d = d")
  case False
  let ?r = "\<lparr>user_id = next_id d, username = ''admin'', email = ''admin@admin.com'',
             password = bcrypt_hash E ''admin123'', full_name = Some ''Administrator'',
             role = Some ''admin'', created_at = now\<rparr>"
  from False have "createAdminAccount E now d =
      d\<lparr>rows := rows d @ [?r], next_id := Suc (next_id d)\<rparr>"
    by (simp add: createAdminAccount_def Let_def insert_user_def split: if_splits)
  then show ?thesis by (intro disjI2 exI[of _ ?r]) simp
qed simp

lemma update_stmt_table:
  assumes "update_stmt E d u e f i = Inr (n, d')"
  shows "\<exists>g. d' = d\<lparr>rows := map g (rows d)\<rparr> \<and>
             (\<forall>r. user_id (g r) = user_id r \<and> password (g r) = password r)"
proof (cases "list_ex (id_hit E i) (rows d)")
  case False
  with assms have "d' = d" by (simp add: update_stmt_def split: if_splits)
  then have "d' = d\<lparr>rows := map id (rows d)\<rparr>" by simp
  then show ?thesis by (intro exI[of _ id]) simp
next
  case True
  let ?g = "\<lambda>r. if id_hit E i r
                 then r\<lparr>username := str_of u, email := str_of e, full_name := Some f\<rparr> else r"
  from True assms have "d' = d\<lparr>rows := map ?g (rows d)\<rparr>"
    by (simp add: update_stmt_def split: if_splits)
  then show ?thesis by (intro exI[of _ ?g]) simp
qed

lemma update_user_table:
  "\<exists>g. snd (update_user E d req) = d\<lparr>rows := map g (rows d)\<rparr> \<and>
       (\<forall>r. user_id (g r) = user_id r \<and> password (g r) = password r)"
proof (cases "snd (update_user E d req) = d")
  case True
  then have "snd (update_user E d req) = d\<lparr>rows := map id (rows d)\<rparr>" by simp
  then show ?thesis by (intro exI[of _ id]) simp
next
  case False
  then obtain n where
    "update_stmt E d (body req ''username'') (body req ''email'')
       (or_default (body req ''full_name'') []) (params_id req) = Inr (n, snd (update_user E d req))"
    by (auto simp: update_user_def Let_def split: sum.splits prod.splits if_splits)
  then show ?thesis by (rule update_stmt_table)
qed

lemma delete_user_table:
  "\<exists>P. snd (delete_user E d req) = d\<lparr>rows := filter P (rows d)\<rparr>"
proof (cases "snd (delete_user E d req) = d")
  case True
  then have "snd (delete_user E d req) = d\<lparr>rows := filter (\<lambda>_. True) (rows d)\<rparr>" by simp
  then show ?thesis by blast
next
  case False
  then have "snd (delete_user E d req) =
      d\<lparr>rows := filter (\<lambda>r. \<not> id_hit E (params_id req) r) (rows d)\<rparr>"
    by (auto simp: delete_user_def delete_stmt_def split: sum.splits if_splits)
  then show ?thesis by blast
qed





lemma reachable_hashed:
  "reachable E d \<Longrightarrow> r \<in> set (rows d) \<Longrightarrow> \<exists>p. password r = bcrypt_hash E p"
proof (induction arbitrary: r rule: reachable.induct)
  case start
  then show ?case by (simp add: empty_db_def)
next
  case (seed d now)
  from createAdminAccount_table[of E now d] seed show ?case
    by (elim disjE exE conjE) auto
next
  case (reg d now req)
  from register_table[of E now d req] reg show ?case
    by (elim disjE exE conjE) auto
next
  case (upd d req)
  from update_user_table[of E d req] upd show ?case
    by (elim exE conjE) auto
next
  case (del d req)
  from delete_user_table[of E d req] del show ?case
    by (elim exE) auto
qed

subsection \<open>The rows a query returns\<close>

lemma set_sql_scan [simp]: "set (sql_scan E d) = set (rows d)"
  by (simp add: sql_scan_def)





lemma unique_clash_filter:
  "unique_clash E (rows d) u e = (select_by_username_or_email E d u e \<noteq> [])"
  by (auto simp: unique_clash_def select_by_username_or_email_def list_ex_iff filter_empty_conv)


lemma select_nonempty_iff:
  "(select_by_username_or_email E d u e \<noteq> []) =
   (\<exists>r \<in> set (rows d). sql_eq E (username r) u \<or> sql_eq E (email r) e)"
  by (auto simp: select_by_username_or_email_def filter_empty_conv)


subsection \<open>Rewriting the password column\<close>

lemma insort_key_map_same:
  "\<forall>x. k (g x) = k x \<Longrightarrow> insort_key k (g x) (map g xs) = map g (insort_key k x xs)"
  by (induction xs) simp_all

lemma sort_key_map_same:
  "\<forall>x. k (g x) = k x \<Longrightarrow> sort_key k (map g xs) = map g (sort_key k xs)"
  by (induction xs) (simp_all add: insort_key_map_same)

lemma sql_scan_with_passwords:
  "sql_scan E (with_passwords f d) = map (\<lambda>r. r\<lparr>password := f r\<rparr>) (sql_scan E d)"
  by (simp add: sql_scan_def with_passwords_def sort_key_map_same)

lemma public_row_password [simp]: "public_row (r\<lparr>password := x\<rparr>) = public_row r"
  by (simp add: public_row_def)

lemma role_or_user_password [simp]: "role_or_user (r\<lparr>password := x\<rparr>) = role_or_user r"
  by (simp add: role_or_user_def)

lemma select_with_passwords:
  "select_by_username_or_email E (with_passwords f d) u e =
     map (\<lambda>r. r\<lparr>password := f r\<rparr>) (select_by_username_or_email E d u e)"
  by (simp add: select_by_username_or_email_def sql_scan_with_passwords filter_map comp_def)

lemma select_by_id_with_passwords:
  "select_by_id E (with_passwords f d) i =
     map (\<lambda>r. r\<lparr>password := f r\<rparr>) (select_by_id E d i)"
  by (simp add: select_by_id_def sql_scan_with_passwords filter_map comp_def id_hit_def[abs_def])

lemma unique_clash_with_passwords:
  "unique_clash E (rows (with_passwords f d)) u e = unique_clash E (rows d) u e"
  by (simp add: unique_clash_def with_passwords_def list_ex_iff)

lemma list_users_with_passwords:
  "list_users E (with_passwords f d) req = list_users E d req"
  by (simp add: list_users_def sql_scan_with_passwords comp_def split: sum.splits)

lemma get_user_with_passwords:
  "get_user E (with_passwords f d) req = get_user E d req"
  by (simp add: get_user_def select_by_id_with_passwords comp_def split: sum.splits)

lemma register_with_passwords:
  "fst (register E now (with_passwords f d) req) = fst (register E now d req)"
proof (cases "select_by_username_or_email E d (str_of (body req ''username''))
                (str_of (body req ''email'')) = []")
  case True
  then show ?thesis
    by (simp add: register_def Let_def select_with_passwords insert_user_def
        unique_clash_with_passwords, simp add: with_passwords_def)
next
  case False
  then show ?thesis
    by (simp add: register_def Let_def select_with_passwords insert_user_def
        unique_clash_with_passwords hd_map, simp add: with_passwords_def)
qed

lemma register_any_hasher:
  "fst (register (E\<lparr>bcrypt_hash := h\<rparr>) now d req) = fst (register E now d req)"
  by (simp add: register_def Let_def insert_user_def unique_clash_def
      select_by_username_or_email_def sql_scan_def register_catch_def)

lemma login_with_passwords:
  assumes "\<forall>r \<in> set (rows d).
      bcrypt_compare E (str_of (body req ''password'')) (f r) =
      bcrypt_compare E (str_of (body req ''password'')) (password r)"
  shows "login E (with_passwords f d) req = login E d req"
proof (cases "select_by_username_or_email E d (str_of (body req ''username''))
                (str_of (body req ''username'')) = []")
  case True
  then show ?thesis
    by (simp add: login_def Let_def select_with_passwords)
next
  case False
  let ?us = "select_by_username_or_email E d (str_of (body req ''username''))
               (str_of (body req ''username''))"
  from False have "hd ?us \<in> set ?us" by simp
  then have "hd ?us \<in> set (rows d)"
    by (simp add: select_by_username_or_email_def)
  with assms have "bcrypt_compare E (str_of (body req ''password'')) (f (hd ?us)) =
      bcrypt_compare E (str_of (body req ''password'')) (password (hd ?us))"
    by blast
  with False show ?thesis
    by (simp add: login_def Let_def select_with_passwords hd_map)
qed

subsection \<open>The ids of a list response\<close>




subsection \<open>The concrete tables\<close>

lemma seeded_db_rows:
  "seeded_db =
     \<lparr>rows = [\<lparr>user_id = 1, username = ''admin'', email = ''admin@admin.com'',
                password = ''$2a$10$admin123'', full_name = Some ''Administrator'',
                role = Some ''admin'', created_at = 0\<rparr>],
      next_id = 2\<rparr>"
  by (simp add: seeded_db_def createAdminAccount_def empty_db_def sql_defs demo_env_def)

lemma bob_db_rows:
  "bob_db =
     \<lparr>rows = [\<lparr>user_id = 1, username = ''admin'', email = ''admin@admin.com'',
                password = ''$2a$10$admin123'', full_name = Some ''Administrator'',
                role = Some ''admin'', created_at = 0\<rparr>,
              \<lparr>user_id = 2, username = ''bob'', email = ''bob@x.com'',
                password = ''$2a$10$Str0ng!pw'', full_name = Some ''Bob'',
                role = Some ''user'', created_at = 1\<rparr>],
      next_id = 3\<rparr>"
  by (simp add: bob_db_def seeded_db_rows register_def value_defs sql_defs demo_env_def)

lemma carol_db_rows:
  "carol_db =
     \<lparr>rows = [\<lparr>user_id = 1, username = ''admin'', email = ''admin@admin.com'',
                password = ''$2a$10$admin123'', full_name = Some ''Administrator'',
                role = Some ''admin'', created_at = 0\<rparr>,
              \<lparr>user_id = 2, username = ''bob'', email = ''bob@x.com'',
                password = ''$2a$10$Str0ng!pw'', full_name = Some ''Bob'',
                role = Some ''user'', created_at = 1\<rparr>,
              \<lparr>user_id = 3, username = ''carol@x.com'', email = ''dave@x.com'',
                password = ''$2a$10$Dave!pw1'', full_name = Some [],
                role = Some ''user'', created_at = 2\<rparr>,
              \<lparr>user_id = 4, username = ''carol'', email = ''carol@x.com'',
                password = ''$2a$10$Carol!pw1'', full_name = Some [],
                role = Some ''user'', created_at = 3\<rparr>],
      next_id = 5\<rparr>"
  by (simp add: carol_db_def bob_db_rows register_def value_defs sql_defs demo_env_def)

lemma twin_db_rows:
  "twin_db =
     \<lparr>rows = [\<lparr>user_id = 1, username = ''admin'', email = ''admin@admin.com'',
                password = ''$2a$10$admin123'', full_name = Some ''Administrator'',
                role = Some ''admin'', created_at = 0\<rparr>,
              \<lparr>user_id = 2, username = ''bob'', email = ''bob@x.com'',
                password = ''$2a$10$Str0ng!pw'', full_name = Some ''Bob'',
                role = Some ''user'', created_at = 1\<rparr>,
              \<lparr>user_id = 3, username = ''carol@x.com'', email = ''dave@x.com'',
                password = ''$2a$10$Carol!pw1'', full_name = Some [],
                role = Some ''user'', created_at = 2\<rparr>,
              \<lparr>user_id = 4, username = ''carol'', email = ''carol@x.com'',
                password = ''$2a$10$Carol!pw1'', full_name = Some [],
                role = Some ''user'', created_at = 3\<rparr>],
      next_id = 5\<rparr>"
  by (simp add: twin_db_def bob_db_rows register_def value_defs sql_defs demo_env_def)

lemma seeded_db_reachable: "reachable demo_env seeded_db"
  unfolding seeded_db_def by (intro reachable.seed reachable.start)

lemma bob_db_reachable: "reachable demo_env bob_db"
  unfolding bob_db_def by (intro reachable.reg seeded_db_reachable)

lemma carol_db_reachable: "reachable demo_env carol_db"
  unfolding carol_db_def by (intro reachable.reg bob_db_reachable)

lemma bearer_token_demo [simp]:
  "bearer_token (Some ''Bearer jwt.bob'') = Some ''jwt.bob''"
  "bearer_token (Some ''Bearer jwt.admin'') = Some ''jwt.admin''"
  by (simp_all add: bearer_token_def)



section \<open>The claims\<close>

text \<open>
  \<^bold>\<open>C1\<close>. The claim: every admin-gated operation rejects a call whose valid token
  carries a role other than \<open>admin\<close>. \<open>authenticateToken\<close> verifies the token and
  nothing reads the role of its payload: with the token of \<open>bob\<close> (role \<open>user\<close>),
  \<open>GET /api/users\<close> lists every user, \<open>GET /api/users/1\<close> shows the administrator,
  \<open>PUT /api/users/1\<close> rewrites the administrator's row and \<open>DELETE /api/users/3\<close>
  removes another user.
\<close>

theorem gated_routes_admit_role_user:
  "list_users demo_env bob_db (with_token ''jwt.bob'' [] []) =
     (200, Json (JArr
        [JObj [(''id'', JNum 1), (''username'', JStr ''admin''),
               (''email'', JStr ''admin@admin.com''), (''full_name'', JStr ''Administrator''),
               (''role'', JStr ''admin''), (''created_at'', JNum 0)],
         JObj [(''id'', JNum 2), (''username'', JStr ''bob''),
               (''email'', JStr ''bob@x.com''), (''full_name'', JStr ''Bob''),
               (''role'', JStr ''user''), (''created_at'', JNum 1)]])) \<and>
   get_user demo_env bob_db (with_token ''jwt.bob'' ''1'' []) =
     (200, Json (JObj [(''id'', JNum 1), (''username'', JStr ''admin''),
               (''email'', JStr ''admin@admin.com''), (''full_name'', JStr ''Administrator''),
               (''role'', JStr ''admin''), (''created_at'', JNum 0)])) \<and>
   fst (update_user demo_env bob_db (with_token ''jwt.bob'' ''1''
          [(''username'', JsString ''root''), (''email'', JsString ''root@x.com'')])) =
     (200, Json (JObj [(''message'', JStr ''User updated successfully'')])) \<and>
   fst (delete_user demo_env carol_db (with_token ''jwt.bob'' ''3'' [])) =
     (200, Json (JObj [(''message'', JStr ''User deleted successfully'')]))"
  by (simp add: list_users_def get_user_def update_user_def delete_user_def authenticateToken_def
      bob_db_rows carol_db_rows value_defs sql_defs demo_defs)

text \<open>
  \<^bold>\<open>C2\<close>. The claim: \<open>updateUser\<close> leaves the fields it is not given as they were,
  and \<open>updateUser(id, {fullName: X})\<close> followed by \<open>getUser(id)\<close> shows \<open>X\<close>. The
  handler binds all three columns whatever the body holds: with only \<open>full_name\<close> the
  driver refuses the \<open>undefined\<close> parameters, the answer is 500 and the name is not
  written; with \<open>username\<close> and \<open>email\<close> alone the stored \<open>full_name\<close> is overwritten
  by the empty string.
\<close>

theorem update_user_omitted_fields:
  "update_user demo_env bob_db (with_token ''jwt.admin'' ''2'' [(''full_name'', JsString ''X'')]) =
     ((500, Json (JObj [(''error'', JStr ''Failed to update user'')])), bob_db) \<and>
   update_user demo_env bob_db (with_token ''jwt.admin'' ''2''
       [(''username'', JsString ''bob''), (''email'', JsString ''bob@x.com'')]) =
     ((200, Json (JObj [(''message'', JStr ''User updated successfully'')])),
      \<lparr>rows = [\<lparr>user_id = 1, username = ''admin'', email = ''admin@admin.com'',
                 password = ''$2a$10$admin123'', full_name = Some ''Administrator'',
                 role = Some ''admin'', created_at = 0\<rparr>,
               \<lparr>user_id = 2, username = ''bob'', email = ''bob@x.com'',
                 password = ''$2a$10$Str0ng!pw'', full_name = Some [],
                 role = Some ''user'', created_at = 1\<rparr>],
       next_id = 3\<rparr>)"
  by (simp add: update_user_def authenticateToken_def bob_db_rows value_defs sql_defs demo_defs)

text \<open>
  \<^bold>\<open>C3\<close>. The claim: \<open>register\<close> refuses an e-mail address outside the address
  grammar with 400 and stores nothing. The handler never looks at the shape of the
  address: the request of the repository's own test
  (\<open>email: 'invalid-email'\<close>) is answered 201 and the row is stored.
\<close>

theorem register_accepts_invalid_email:
  "register demo_env 2 bob_db
     (post [(''username'', JsString ''testuser4''), (''email'', JsString ''invalid-email''),
            (''password'', JsString ''TestPassword123!''), (''full_name'', JsString ''Test User 4'')]) =
   ((201, Json (JObj
       [(''message'', JStr ''User created successfully''),
        (''user'', JObj [(''id'', JNum 3), (''username'', JStr ''testuser4''),
                        (''email'', JStr ''invalid-email''), (''full_name'', JStr ''Test User 4''),
                        (''role'', JStr ''user'')])])),
    \<lparr>rows = rows bob_db @
       [\<lparr>user_id = 3, username = ''testuser4'', email = ''invalid-email'',
         password = ''$2a$10$TestPassword123!'', full_name = Some ''Test User 4'',
         role = Some ''user'', created_at = 2\<rparr>],
     next_id = 4\<rparr>)"
  by (simp add: register_def bob_db_rows value_defs sql_defs demo_env_def)

text \<open>
  \<^bold>\<open>C4\<close>. The claim: \<open>register\<close> refuses a \<open>username\<close> or \<open>full_name\<close> that carries
  markup with 400 and stores nothing. The handler never inspects the two strings: a
  script element as user name and an image element as full name are answered 201 and
  stored as sent.
\<close>

theorem register_accepts_markup:
  "register demo_env 2 bob_db
     (post [(''username'', JsString ''<script>alert(1)</script>''),
            (''email'', JsString ''xss@example.com''),
            (''password'', JsString ''TestPassword123!''),
            (''full_name'', JsString ''<img src=x onerror=alert(1)>'')]) =
   ((201, Json (JObj
       [(''message'', JStr ''User created successfully''),
        (''user'', JObj [(''id'', JNum 3), (''username'', JStr ''<script>alert(1)</script>''),
                        (''email'', JStr ''xss@example.com''),
                        (''full_name'', JStr ''<img src=x onerror=alert(1)>''),
                        (''role'', JStr ''user'')])])),
    \<lparr>rows = rows bob_db @
       [\<lparr>user_id = 3, username = ''<script>alert(1)</script>'', email = ''xss@example.com'',
         password = ''$2a$10$TestPassword123!'',
         full_name = Some ''<img src=x onerror=alert(1)>'',
         role = Some ''user'', created_at = 2\<rparr>],
     next_id = 4\<rparr>)"
  by (simp add: register_def bob_db_rows value_defs sql_defs demo_env_def)

text \<open>
  \<^bold>\<open>C5\<close>. The stored hash never reaches a response of \<open>register\<close>, \<open>login\<close>,
  \<open>listUsers\<close> or \<open>getUser\<close>:
  \<^item> no response, whatever its status, has an object key \<open>password\<close> at any depth;
  \<^item> the responses of \<open>listUsers\<close>, \<open>getUser\<close> and \<open>register\<close> are the same whatever
    the \<open>password\<close> column of the table holds, and the response of \<open>register\<close> is the
    same whatever the hasher returns for the new password;
  \<^item> the response of \<open>login\<close> depends on the column only through the verdict of
    \<open>bcrypt.compare\<close>: two tables that differ in that column alone, on which the
    verdicts agree, get the same response.

  And every row has a hash: in every table the server can reach from an empty one, the
  \<open>password\<close> column of every row holds a value the hasher produced.
\<close>

theorem password_hash_never_returned:
  "''password'' \<notin> set (payload_keys (snd (fst (register E now d req)))) \<and>
   ''password'' \<notin> set (payload_keys (snd (login E d req))) \<and>
   ''password'' \<notin> set (payload_keys (snd (list_users E d req))) \<and>
   ''password'' \<notin> set (payload_keys (snd (get_user E d req))) \<and>
   list_users E (with_passwords f d) req = list_users E d req \<and>
   get_user E (with_passwords f d) req = get_user E d req \<and>
   fst (register E now (with_passwords f d) req) = fst (register E now d req) \<and>
   fst (register (E\<lparr>bcrypt_hash := h\<rparr>) now d req) = fst (register E now d req) \<and>
   ((\<forall>r \<in> set (rows d).
        bcrypt_compare E (str_of (body req ''password'')) (f r) =
        bcrypt_compare E (str_of (body req ''password'')) (password r)) \<longrightarrow>
      login E (with_passwords f d) req = login E d req) \<and>
   (reachable E d \<longrightarrow> (\<forall>r \<in> set (rows d). \<exists>p. password r = bcrypt_hash E p))"
proof -
  have "''password'' \<notin> set (payload_keys (snd (fst (register E now d req))))"
    using register_keys[of E now d req] by auto
  moreover have "''password'' \<notin> set (payload_keys (snd (login E d req)))"
    using login_keys[of E d req] by auto
  moreover have "''password'' \<notin> set (payload_keys (snd (list_users E d req)))"
    using list_users_keys[of E d req] by auto
  moreover have "''password'' \<notin> set (payload_keys (snd (get_user E d req)))"
    using get_user_keys[of E d req] by auto
  moreover have "\<exists>p. password r = bcrypt_hash E p"
    if "reachable E d" "r \<in> set (rows d)" for r
    using that by (rule reachable_hashed)
  ultimately show ?thesis
    using list_users_with_passwords[where E = E and f = f and d = d and req = req]
      get_user_with_passwords[where E = E and f = f and d = d and req = req]
      register_with_passwords[where E = E and f = f and d = d and req = req and now = now]
      register_any_hasher[where E = E and h = h and d = d and req = req and now = now]
      login_with_passwords[where E = E and f = f and d = d and req = req]
    by blast
qed

text \<open>
  The theorem at work on the table with \<open>bob\<close>: the hash of the administrator is
  replaced by another string, and neither the list an administrator receives nor the
  login of \<open>bob\<close> shows a difference; the row of \<open>bob\<close> holds a hash.
\<close>

theorem password_hash_never_returned_witness:
  "list_users demo_env
     (with_passwords (\<lambda>r. if user_id r = 1 then ''other'' else password r) bob_db)
     (with_token ''jwt.admin'' [] [(''username'', JsString ''bob''), (''password'', JsString ''Str0ng!pw'')]) =
   list_users demo_env bob_db
     (with_token ''jwt.admin'' [] [(''username'', JsString ''bob''), (''password'', JsString ''Str0ng!pw'')]) \<and>
   login demo_env
     (with_passwords (\<lambda>r. if user_id r = 1 then ''other'' else password r) bob_db)
     (with_token ''jwt.admin'' [] [(''username'', JsString ''bob''), (''password'', JsString ''Str0ng!pw'')]) =
   login demo_env bob_db
     (with_token ''jwt.admin'' [] [(''username'', JsString ''bob''), (''password'', JsString ''Str0ng!pw'')]) \<and>
   (\<exists>p. password (rows bob_db ! 1) = bcrypt_hash demo_env p)"
proof -
  let ?f = "\<lambda>r. if user_id r = 1 then ''other'' else password r"
  let ?req = "with_token ''jwt.admin'' []
                [(''username'', JsString ''bob''), (''password'', JsString ''Str0ng!pw'')]"
  have verdicts: "\<forall>r \<in> set (rows bob_db).
      bcrypt_compare demo_env (str_of (body ?req ''password'')) (?f r) =
      bcrypt_compare demo_env (str_of (body ?req ''password'')) (password r)"
    by (simp add: bob_db_rows demo_env_def with_token_def obj_def str_of_def)
  have row: "rows bob_db ! 1 \<in> set (rows bob_db)"
    by (simp add: bob_db_rows)
  from password_hash_never_returned[where E = demo_env and d = bob_db and req = ?req
      and f = ?f and now = 0 and h = id]
    verdicts bob_db_reachable row
  show ?thesis by blast
qed

text \<open>
  \<^bold>\<open>C6\<close>. The claim: \<open>login\<close> succeeds if and only if the identity is the user name
  or the address of a stored user and the password verifies against that user's hash.
  The handler verifies the password against \<open>users[0]\<close> alone, the first row the query
  returns, though the query can return two. In \<open>carol_db\<close> the address of \<open>carol\<close> is
  also the user name of an older row: \<open>carol\<close> is a stored user (row 4), her address is
  the identity, her password verifies against her hash, and \<open>login\<close> answers 401. In
  \<open>twin_db\<close>, where the older user chose the same password, the same request is
  answered 200 with the token and the record of user 3.
\<close>

theorem login_shadowed_by_username:
  "rows carol_db ! 3 =
     \<lparr>user_id = 4, username = ''carol'', email = ''carol@x.com'',
      password = ''$2a$10$Carol!pw1'', full_name = Some [], role = Some ''user'',
      created_at = 3\<rparr> \<and>
   bcrypt_compare demo_env ''Carol!pw1'' (password (rows carol_db ! 3)) \<and>
   login demo_env carol_db
     (post [(''username'', JsString ''carol@x.com''), (''password'', JsString ''Carol!pw1'')]) =
   (401, Json (JObj [(''error'', JStr ''Invalid credentials'')])) \<and>
   rows twin_db ! 3 = rows carol_db ! 3 \<and>
   login demo_env twin_db
     (post [(''username'', JsString ''carol@x.com''), (''password'', JsString ''Carol!pw1'')]) =
   (200, Json (JObj
      [(''message'', JStr ''Login successful''),
       (''token'', JStr ''jwt.carol@x.com''),
       (''user'', JObj [(''id'', JNum 3), (''username'', JStr ''carol@x.com''),
                       (''email'', JStr ''dave@x.com''), (''full_name'', JStr []),
                       (''role'', JStr ''user'')])]))"
  by (simp add: login_def carol_db_rows twin_db_rows value_defs sql_defs demo_env_def)







text \<open>
  \<^bold>\<open>C9\<close>. The claim: \<open>deleteUser\<close> on the protected administrator record always
  fails with 403 and leaves the table unchanged. The guard compares the route parameter
  with the string \<open>'1'\<close>; the \<open>DELETE\<close> statement compares it with the \<open>INT\<close> key by
  value. \<open>DELETE /api/users/1\<close> is refused, \<open>DELETE /api/users/01\<close> passes the guard and
  removes row 1.
\<close>

theorem delete_user_01_removes_admin:
  "delete_user demo_env bob_db (with_token ''jwt.admin'' ''1'' []) =
     ((403, Json (JObj [(''error'', JStr ''Cannot delete admin account'')])), bob_db) \<and>
   delete_user demo_env bob_db (with_token ''jwt.admin'' ''01'' []) =
     ((200, Json (JObj [(''message'', JStr ''User deleted successfully'')])),
      \<lparr>rows = [\<lparr>user_id = 2, username = ''bob'', email = ''bob@x.com'',
                 password = ''$2a$10$Str0ng!pw'', full_name = Some ''Bob'',
                 role = Some ''user'', created_at = 1\<rparr>],
       next_id = 3\<rparr>)"
  by (simp add: delete_user_def authenticateToken_def bob_db_rows value_defs sql_defs demo_defs)

text \<open>
  \<^bold>\<open>C10\<close>. \<open>register\<close> never reads the \<open>Authorization\<close> header. A call with non-empty
  \<open>username\<close>, \<open>email\<close> and \<open>password\<close> that collides with no stored row is answered 201
  and appends one row; the row's role is the \<open>role\<close> of the body when that is a non-empty
  string, \<open>admin\<close> included, and \<open>user\<close> when the body has no \<open>role\<close> (or a \<open>null\<close> or
  empty one).
\<close>

theorem register_stores_supplied_role:
  assumes "body req ''username'' = JsString u" and "u \<noteq> []"
    and "body req ''email'' = JsString e" and "e \<noteq> []"
    and "body req ''password'' = JsString p" and "p \<noteq> []"
    and "\<forall>r \<in> set (rows d). \<not> sql_eq E (username r) u \<and> \<not> sql_eq E (email r) e"
  shows "(\<forall>a. register E now d (req\<lparr>authorization := a\<rparr>) = register E now d req) \<and>
         fst (fst (register E now d req)) = 201 \<and>
         snd (register E now d req) =
           d\<lparr>rows := rows d @
                [\<lparr>user_id = next_id d, username = u, email = e, password = bcrypt_hash E p,
                  full_name = Some (or_default (body req ''full_name'') []),
                  role = Some (or_default (body req ''role'') ''user''), created_at = now\<rparr>],
             next_id := Suc (next_id d)\<rparr> \<and>
         (body req ''role'' = JsString ''admin'' \<longrightarrow>
            role (last (rows (snd (register E now d req)))) = Some ''admin'') \<and>
         (\<forall>r. r \<noteq> [] \<longrightarrow> body req ''role'' = JsString r \<longrightarrow>
            role (last (rows (snd (register E now d req)))) = Some r) \<and>
         (falsy (body req ''role'') \<longrightarrow>
            role (last (rows (snd (register E now d req)))) = Some ''user'')"
proof -
  from assms(7) have none: "select_by_username_or_email E d u e = []"
    using select_nonempty_iff[of E d u e] by blast
  then have noclash: "\<not> unique_clash E (rows d) u e"
    by (simp add: unique_clash_filter)
  have same: "register E now d (req\<lparr>authorization := a\<rparr>) = register E now d req" for a
    by (simp add: register_def)
  have st: "fst (fst (register E now d req)) = 201"
    using assms(1-6) none noclash
    by (simp add: register_def Let_def str_of_def falsy_def insert_user_def)
  have tab: "snd (register E now d req) =
           d\<lparr>rows := rows d @
                [\<lparr>user_id = next_id d, username = u, email = e, password = bcrypt_hash E p,
                  full_name = Some (or_default (body req ''full_name'') []),
                  role = Some (or_default (body req ''role'') ''user''), created_at = now\<rparr>],
             next_id := Suc (next_id d)\<rparr>"
    using assms(1-6) none noclash
    by (simp add: register_def Let_def str_of_def falsy_def insert_user_def)
  show ?thesis
    by (simp add: same st tab or_default_def falsy_def split: jsval.splits)
qed

text \<open>
  The theorem at work: a caller without a token registers an administrator.
\<close>

theorem register_stores_supplied_role_witness:
  "fst (fst (register demo_env 2 bob_db
     (post [(''username'', JsString ''mallory''), (''email'', JsString ''mallory@x.com''),
            (''password'', JsString ''Pw!12345''), (''role'', JsString ''admin'')]))) = 201 \<and>
   role (last (rows (snd (register demo_env 2 bob_db
     (post [(''username'', JsString ''mallory''), (''email'', JsString ''mallory@x.com''),
            (''password'', JsString ''Pw!12345''), (''role'', JsString ''admin'')]))))) = Some ''admin''"
proof -
  let ?req = "post [(''username'', JsString ''mallory''), (''email'', JsString ''mallory@x.com''),
                    (''password'', JsString ''Pw!12345''), (''role'', JsString ''admin'')]"
  have u: "body ?req ''username'' = JsString ''mallory''"
    and e: "body ?req ''email'' = JsString ''mallory@x.com''"
    and p: "body ?req ''password'' = JsString ''Pw!12345''"
    and r: "body ?req ''role'' = JsString ''admin''"
    by (simp_all add: post_def obj_def)
  have fresh: "\<forall>r \<in> set (rows bob_db).
      \<not> sql_eq demo_env (username r) ''mallory'' \<and> \<not> sql_eq demo_env (email r) ''mallory@x.com''"
    by (simp add: bob_db_rows demo_env_def)
  have ne: "''mallory'' \<noteq> []" "''mallory@x.com'' \<noteq> []" "''Pw!12345'' \<noteq> []"
    by simp_all
  from register_stores_supplied_role[OF u ne(1) e ne(2) p ne(3) fresh, of 2] r show ?thesis
    by blast
qed

end
